theory Spec2Isabelle
  imports Main "HOL-Library.Sublist"
begin

section \<open>JavaScript values\<close>

text \<open>
  The server is a Node.js program working on JSON data (CRM items, stored JSON files, the
  event objects it builds). Values are modelled by the datatype \<open>jsval\<close>. A JavaScript
  string is a sequence of UTF-16 code units, modelled as a list of naturals, because the
  program contains Cyrillic keywords and trims Unicode white space. Numbers are the
  integers (record ids, stage type codes); the only non-integer numbers of the program are
  map coordinates, which stay inside the presentation attributes that are parameters below.
  An object is the list of its own properties in insertion order.
\<close>

type_synonym jsstring = "nat list"

datatype jsval =
    JUndef
  | JNull
  | JBool bool
  | JNum int
  | JStr jsstring
  | JArr "jsval list"
  | JObj "(jsstring \<times> jsval) list"

type_synonym props = "(jsstring \<times> jsval) list"

text \<open>An ASCII literal of the source as code units.\<close>

definition js :: "string \<Rightarrow> jsstring" where
  "js s = map of_char s"

text \<open>\<open>Boolean(v)\<close>, the truthiness used by \<open>!v\<close>, \<open>a || b\<close>, \<open>a && b\<close> and \<open>filter(Boolean)\<close>.\<close>

fun truthy :: "jsval \<Rightarrow> bool" where
  "truthy JUndef = False"
| "truthy JNull = False"
| "truthy (JBool b) = b"
| "truthy (JNum n) = (n \<noteq> 0)"
| "truthy (JStr s) = (s \<noteq> [])"
| "truthy (JArr xs) = True"
| "truthy (JObj ps) = True"

text \<open>\<open>a || b\<close> and \<open>a ?? b\<close>.\<close>

definition jsOr :: "jsval \<Rightarrow> jsval \<Rightarrow> jsval" where
  "jsOr a b = (if truthy a then a else b)"

definition nullish :: "jsval \<Rightarrow> bool" where
  "nullish v = (v = JNull \<or> v = JUndef)"

definition jsCoalesce :: "jsval \<Rightarrow> jsval \<Rightarrow> jsval" where
  "jsCoalesce a b = (if nullish a then b else a)"

text \<open>White space and line terminators removed by \<open>String.prototype.trim\<close>.\<close>

definition isWhiteSpace :: "nat \<Rightarrow> bool" where
  "isWhiteSpace c = (c = 9 \<or> c = 10 \<or> c = 11 \<or> c = 12 \<or> c = 13 \<or> c = 32 \<or> c = 160
     \<or> c = 5760 \<or> (8192 \<le> c \<and> c \<le> 8202) \<or> c = 8232 \<or> c = 8233 \<or> c = 8239
     \<or> c = 8287 \<or> c = 12288 \<or> c = 65279)"

definition trim :: "jsstring \<Rightarrow> jsstring" where
  "trim s = rev (dropWhile isWhiteSpace (rev (dropWhile isWhiteSpace s)))"

text \<open>Decimal digits of a number, as \<open>String(n)\<close> prints an integer.\<close>

fun showNat :: "nat \<Rightarrow> jsstring" where
  "showNat n = (if n < 10 then [48 + n] else showNat (n div 10) @ [48 + n mod 10])"

declare showNat.simps [simp del]

definition showInt :: "int \<Rightarrow> jsstring" where
  "showInt i = (if i < 0 then 45 # showNat (nat (- i)) else showNat (nat i))"

text \<open>\<open>Array.prototype.join\<close> on strings.\<close>

fun joinWith :: "jsstring \<Rightarrow> jsstring list \<Rightarrow> jsstring" where
  "joinWith sep [] = []"
| "joinWith sep [x] = x"
| "joinWith sep (x # y # ys) = x @ sep @ joinWith sep (y # ys)"

text \<open>
  \<open>String(v)\<close>. An array prints its elements separated by commas, with \<open>null\<close> and
  \<open>undefined\<close> elements printed as the empty string; a plain object prints as
  \<open>[object Object]\<close>.
\<close>

fun toStr :: "jsval \<Rightarrow> jsstring" where
  "toStr JUndef = js ''undefined''"
| "toStr JNull = js ''null''"
| "toStr (JBool b) = (if b then js ''true'' else js ''false'')"
| "toStr (JNum n) = showInt n"
| "toStr (JStr s) = s"
| "toStr (JArr xs) =
     joinWith (js '','') (map (\<lambda>x. if x = JNull \<or> x = JUndef then [] else toStr x) xs)"
| "toStr (JObj ps) = js ''[object Object]''"

text \<open>
  Reading a named property \<open>v.k\<close> (and \<open>v?.k\<close>, which differs only on \<open>null\<close> and
  \<open>undefined\<close>: the places where the plain form throws are branches of the functions
  that use it). Only own properties are modelled; strings, numbers and arrays have none of
  the names the program reads.
\<close>

fun lookup :: "jsstring \<Rightarrow> props \<Rightarrow> jsval" where
  "lookup k [] = JUndef"
| "lookup k (p # ps) = (if fst p = k then snd p else lookup k ps)"

fun getProp :: "jsstring \<Rightarrow> jsval \<Rightarrow> jsval" where
  "getProp k (JObj ps) = lookup k ps"
| "getProp k v = JUndef"

text \<open>Writing a property of an object: an existing key keeps its place, a new key is appended.\<close>

fun setProp :: "jsstring \<Rightarrow> jsval \<Rightarrow> props \<Rightarrow> props" where
  "setProp k v [] = [(k, v)]"
| "setProp k v (p # ps) = (if fst p = k then (k, v) # ps else p # setProp k v ps)"

text \<open>\<open>s.includes(k)\<close> and \<open>s.startsWith(k)\<close>.\<close>

fun startsWith :: "jsstring \<Rightarrow> jsstring \<Rightarrow> bool" where
  "startsWith s [] = True"
| "startsWith [] (k # ks) = False"
| "startsWith (c # cs) (k # ks) = (c = k \<and> startsWith cs ks)"

fun strIncludes :: "jsstring \<Rightarrow> jsstring \<Rightarrow> bool" where
  "strIncludes [] k = (k = [])"
| "strIncludes (c # cs) k = (startsWith (c # cs) k \<or> strIncludes cs k)"

section \<open>Utilities of the server\<close>

text \<open>
  \<open>firstNonEmpty(...vals)\<close>: the first argument that is neither \<open>null\<close>, \<open>undefined\<close>
  nor a string that is blank after trimming; \<open>null\<close> when there is none.
\<close>

fun firstNonEmpty :: "jsval list \<Rightarrow> jsval" where
  "firstNonEmpty [] = JNull"
| "firstNonEmpty (v # vs) =
     (if v = JNull \<or> v = JUndef then firstNonEmpty vs
      else (case v of
              JStr s \<Rightarrow> if trim s = [] then firstNonEmpty vs else v
            | _ \<Rightarrow> v))"

text \<open>\<open>joinArrayField(v)\<close>.\<close>

definition joinArrayField :: "jsval \<Rightarrow> jsstring" where
  "joinArrayField v =
     (if \<not> truthy v then []
      else (case v of
              JArr xs \<Rightarrow> joinWith [10] (map toStr (filter truthy xs))
            | _ \<Rightarrow> toStr v))"

text \<open>\<open>truthyDate(v)\<close>.\<close>

fun truthyDate :: "jsval \<Rightarrow> bool" where
  "truthyDate JNull = False"
| "truthyDate JUndef = False"
| "truthyDate (JStr s) = (trim s \<noteq> [])"
| "truthyDate v = True"

text \<open>\<open>isDateOnlyString(v)\<close>: a string whose trimmed form matches \<open>^\\d{4}-\\d{2}-\\d{2}$\<close>.\<close>

definition isDigit :: "nat \<Rightarrow> bool" where
  "isDigit c = (48 \<le> c \<and> c \<le> 57)"

fun isDateOnlyString :: "jsval \<Rightarrow> bool" where
  "isDateOnlyString (JStr s) =
     (case trim s of
        [y1, y2, y3, y4, d1, m1, m2, d2, a1, a2] \<Rightarrow>
          isDigit y1 \<and> isDigit y2 \<and> isDigit y3 \<and> isDigit y4 \<and> d1 = 45 \<and>
          isDigit m1 \<and> isDigit m2 \<and> d2 = 45 \<and> isDigit a1 \<and> isDigit a2
      | _ \<Rightarrow> False)"
| "isDateOnlyString v = False"

definition eventAllDayFromStart :: "jsval \<Rightarrow> bool" where
  "eventAllDayFromStart startVal = isDateOnlyString startVal"

text \<open>
  \<open>STONE_TYPE_MAP\<close> and \<open>stoneTypeToText\<close>. The table maps the type codes to the
  Russian names of the materials (acrylic, quartz, natural stone, ceramics, quartz with
  acrylic), given here by their code units.
\<close>

definition STONE_TYPE_MAP :: "(jsstring \<times> jsstring) list" where
  "STONE_TYPE_MAP =
     [(js ''8142'', [1040, 1082, 1088, 1080, 1083]),
      (js ''8144'', [1050, 1074, 1072, 1088, 1094]),
      (js ''8146'', [1053, 1072, 1090, 1091, 1088, 1072, 1083, 1082, 1072]),
      (js ''8270'', [1050, 1077, 1088, 1072, 1084, 1080, 1082, 1072]),
      (js ''8272'', [1050, 1074, 1072, 1088, 1094, 43, 1040, 1082, 1088, 1080, 1083])]"

definition stoneTypeToText :: "jsval \<Rightarrow> jsstring" where
  "stoneTypeToText v =
     (if v = JNull \<or> v = JUndef then []
      else (let s = trim (toStr v) in
            if s = [] then []
            else (case map_of STONE_TYPE_MAP s of
                    Some t \<Rightarrow> if t = [] then s else t
                  | None \<Rightarrow> s)))"

definition manualEventColor :: jsstring where
  "manualEventColor = js ''#ef4444''"


section \<open>Colours\<close>

definition COLOR_GRAY_DARK :: jsstring where "COLOR_GRAY_DARK = js ''#111827''"
definition COLOR_BLUE :: jsstring where "COLOR_BLUE = js ''#2563eb''"
definition COLOR_GREEN :: jsstring where "COLOR_GREEN = js ''#16a34a''"
definition COLOR_PURPLE :: jsstring where "COLOR_PURPLE = js ''#7c3aed''"
definition COLOR_RED :: jsstring where "COLOR_RED = js ''#ef4444''"

text \<open>
  The library functions the server calls are parameters of the model:
  \<open>String.prototype.toLowerCase\<close>, the SHA-1 digest in hexadecimal of Node's
  \<open>crypto\<close> module, and the helpers that compute the presentation attributes of an
  event from floating-point coordinates, the geocoding cache and the cache of user names
  (\<open>parseAddressAndCoords\<close>, \<open>parseYandexGeoField\<close>, \<open>getCoordsFromCacheByAddress\<close>
  give address, latitude and longitude; \<open>normalizeId\<close>, \<open>normalizeIdList\<close> and
  \<open>getUserNameFromCache\<close> give the manager's id and name and the installers' ids and
  names).
\<close>

record env =
  toLowerCase :: "jsstring \<Rightarrow> jsstring"
  sha1hex :: "jsstring \<Rightarrow> jsstring"
  placeOf :: "props \<Rightarrow> jsval \<times> jsval \<times> jsval"
  peopleOf :: "props \<Rightarrow> jsval \<times> jsval \<times> jsval \<times> jsval"

text \<open>
  The self-pickup keywords of \<open>detectPickup\<close>, in Russian: "self-pickup", "without
  install" (a prefix, written with and without the space) and "without installation".
\<close>

definition pickupKeywords :: "jsstring list" where
  "pickupKeywords =
     [[1089, 1072, 1084, 1086, 1074, 1099, 1074, 1086, 1079],
      [1073, 1077, 1079, 32, 1084, 1086, 1085, 1090, 1072],
      [1073, 1077, 1079, 1084, 1086, 1085, 1090, 1072, 1078],
      [1073, 1077, 1079, 32, 1091, 1089, 1090, 1072, 1085, 1086, 1074, 1082, 1080]]"

definition pickupText :: "env \<Rightarrow> jsval \<Rightarrow> jsval \<Rightarrow> jsval \<Rightarrow> jsval \<Rightarrow> jsstring" where
  "pickupText E title stoneText installComment extraComment =
     toLowerCase E
       (joinWith [32] (map toStr (filter truthy [title, stoneText, installComment, extraComment])))"

definition detectPickup :: "env \<Rightarrow> jsval \<Rightarrow> jsval \<Rightarrow> jsval \<Rightarrow> jsval \<Rightarrow> bool" where
  "detectPickup E title stoneText installComment extraComment =
     (let t = pickupText E title stoneText installComment extraComment in
      strIncludes t (pickupKeywords ! 0) \<or> strIncludes t (pickupKeywords ! 1) \<or>
      strIncludes t (pickupKeywords ! 2) \<or> strIncludes t (pickupKeywords ! 3))"

definition pickColorByRules ::
  "env \<Rightarrow> jsval \<Rightarrow> jsval \<Rightarrow> jsval \<Rightarrow> jsval \<Rightarrow> jsval \<Rightarrow> jsval \<Rightarrow> jsval \<Rightarrow> jsstring" where
  "pickColorByRules E reclEver otkDate stoneTypeId title stoneText installComment extraComment =
     (if truthy reclEver then COLOR_RED
      else if \<not> truthyDate otkDate then COLOR_GRAY_DARK
      else if detectPickup E title stoneText installComment extraComment then COLOR_PURPLE
      else (let sid = (if stoneTypeId = JNull \<or> stoneTypeId = JUndef then []
                       else trim (toStr stoneTypeId)) in
            if sid = js ''8142'' then COLOR_BLUE
            else if sid = js ''8144'' \<or> sid = js ''8270'' \<or> sid = js ''8146'' \<or> sid = js ''8272''
            then COLOR_GREEN
            else COLOR_BLUE))"

definition colorToSortKey :: "env \<Rightarrow> jsval \<Rightarrow> int" where
  "colorToSortKey E color =
     (let c = toLowerCase E (toStr (jsOr color (JStr []))) in
      if c = COLOR_GREEN then 0
      else if c = COLOR_BLUE \<or> c = js ''#3b82f6'' then 1
      else if c = COLOR_PURPLE then 2
      else if c = COLOR_RED then 3
      else if c = COLOR_GRAY_DARK \<or> c = js ''#6b7280'' then 4
      else 9)"

section \<open>Stage identifiers and stores\<close>

definition STAGE_SUCCESS :: jsstring where "STAGE_SUCCESS = js ''DT141_14:SUCCESS''"


section \<open>Manual cards as events\<close>

text \<open>
  \<open>manualToFcEvent(m)\<close>. It reads the stores of comments and of done marks; \<open>nowIso\<close> is
  \<open>new Date().toISOString()\<close>, used when the card has no date at all.
\<close>

definition manualToFcEvent :: "env \<Rightarrow> props \<Rightarrow> props \<Rightarrow> jsstring \<Rightarrow> jsval \<Rightarrow> jsval" where
  "manualToFcEvent E commentsStore doneStore nowIso m =
     (let idv = toStr (getProp (js ''id'') m);
          color = manualEventColor;
          start = jsOr (getProp (js ''start'') m)
                    (jsOr (getProp (js ''plannedInstall'') m)
                       (jsOr (getProp (js ''assignedInstall'') m) (JStr nowIso)));
          freeComment = (if truthy (lookup idv commentsStore)
                         then toStr (lookup idv commentsStore) else []);
          sortKey = colorToSortKey E (JStr color);
          sysDone = False;
          done = truthy (lookup idv doneStore);
          stoneCode = trim (toStr (jsOr (getProp (js ''stoneCode'') m) (JStr [])))
      in JObj
        [(js ''id'', JStr idv),
         (js ''title'', jsOr (getProp (js ''title'') m) (JStr idv)),
         (js ''start'', start),
         (js ''allDay'', JBool (eventAllDayFromStart start)),
         (js ''backgroundColor'', JStr color),
         (js ''borderColor'', JStr color),
         (js ''extendedProps'', JObj
           [(js ''color'', JStr color),
            (js ''sortKey'', JNum sortKey),
            (js ''done'', JBool done),
            (js ''isDone'', JBool sysDone),
            (js ''stageId'', JStr (js ''MANUAL'')),
            (js ''transferToShop'', JNull),
            (js ''otkDate'', JNull),
            (js ''plannedInstall'', jsOr (getProp (js ''plannedInstall'') m) JNull),
            (js ''assignedInstall'', jsOr (getProp (js ''assignedInstall'') m) JNull),
            (js ''sysAssignedInstall'', JNull),
            (js ''assignedAny'', jsOr (getProp (js ''assignedInstall'') m) JNull),
            (js ''installDone'', JNull),
            (js ''address'', jsOr (getProp (js ''address'') m) (JStr [])),
            (js ''lat'', jsCoalesce (getProp (js ''lat'') m) JNull),
            (js ''lng'', jsCoalesce (getProp (js ''lng'') m) JNull),
            (js ''phone'', jsOr (getProp (js ''phone'') m) (JStr [])),
            (js ''stoneTypeId'', JNull),
            (js ''stoneText'', JStr stoneCode),
            (js ''materialCode'', JStr []),
            (js ''stoneCode'', JStr stoneCode),
            (js ''thickness'', jsOr (getProp (js ''thickness'') m) (JStr [])),
            (js ''installComment'', jsOr (getProp (js ''installComment'') m) (JStr [])),
            (js ''extraComment'', JStr []),
            (js ''managerId'', JNull),
            (js ''managerName'', JStr []),
            (js ''installersIds'', JArr []),
            (js ''installersNames'', JArr []),
            (js ''googleEventId'', JNull),
            (js ''freeComment'', JStr freeComment),
            (js ''hideMarker'', JBool (truthy (getProp (js ''hideMarker'') m)))])])"

section \<open>Raw CRM items to events\<close>


definition itemIdStr :: "props \<Rightarrow> jsstring" where
  "itemIdStr item = toStr (lookup (js ''id'') item)"

definition itemStageId :: "props \<Rightarrow> jsstring" where
  "itemStageId item = trim (toStr (jsOr (lookup (js ''stageId'') item) (JStr [])))"



text \<open>The five date fields of an item, each read as \<open>item.f || null\<close>.\<close>

definition transferToShopOf :: "props \<Rightarrow> jsval" where
  "transferToShopOf item = jsOr (lookup (js ''ufCrm8_1747916236564'') item) JNull"

definition plannedInstallOf :: "props \<Rightarrow> jsval" where
  "plannedInstallOf item = jsOr (lookup (js ''ufCrm8_1744626911134'') item) JNull"

definition assignedInstallOf :: "props \<Rightarrow> jsval" where
  "assignedInstallOf item = jsOr (lookup (js ''ufCrm8_1747908559319'') item) JNull"

definition sysAssignedInstallOf :: "props \<Rightarrow> jsval" where
  "sysAssignedInstallOf item = jsOr (lookup (js ''ufCrm8_1758806212646'') item) JNull"

definition installDoneOf :: "props \<Rightarrow> jsval" where
  "installDoneOf item = jsOr (lookup (js ''ufCrm8_1744639197488'') item) JNull"

definition otkDateOf :: "props \<Rightarrow> jsval" where
  "otkDateOf item = jsOr (lookup (js ''ufCrm8_1747306212023'') item) JNull"

text \<open>
  The event pushed for an item that passed the date checks, with \<open>dateValue\<close> the date
  chosen for it and \<open>reclEver\<close> the value of \<open>isReclEver\<close> for it.
\<close>

definition buildEvent :: "env \<Rightarrow> props \<Rightarrow> props \<Rightarrow> props \<Rightarrow> bool \<Rightarrow> jsval \<Rightarrow> jsval" where
  "buildEvent E doneStore commentsStore item reclEver dateValue =
     (let idStr = itemIdStr item;
          stageId = itemStageId item;
          transferToShop = transferToShopOf item;
          plannedInstall = plannedInstallOf item;
          assignedInstall = assignedInstallOf item;
          sysAssignedInstall = sysAssignedInstallOf item;
          installDone = installDoneOf item;
          assignedAny = firstNonEmpty [assignedInstall, sysAssignedInstall];
          sysDone = (stageId = STAGE_SUCCESS);
          (cleanAddress, lat, lng) = placeOf E item;
          hideMarker = sysDone;
          orderNumber = trim (toStr (jsOr (lookup (js ''ufCrm8_1758702287777'') item) (JStr [])));
          customerName = trim (toStr (jsOr (lookup (js ''ufCrm8_1758702046420'') item) (JStr [])));
          prefix = (if orderNumber \<noteq> [] then orderNumber else toStr (lookup (js ''id'') item));
          title = (if customerName \<noteq> [] then prefix @ [32, 8212, 32] @ customerName else prefix);
          phone = jsOr (firstNonEmpty [lookup (js ''ufCrm8_1744626408052'') item,
                                       lookup (js ''ufCrm8_1758702057969'') item]) (JStr []);
          installComment = joinArrayField (lookup (js ''ufCrm8_1732097971828'') item);
          extraComment = joinArrayField (lookup (js ''ufCrm8_1744638484827'') item);
          stoneTypeId = jsCoalesce (lookup (js ''ufCrm8_1731616262'') item) JNull;
          stoneTextFromId = stoneTypeToText stoneTypeId;
          materialCode = trim (toStr (jsOr (lookup (js ''ufCrm8_1759661234'') item) (JStr [])));
          stoneText = trim (if stoneTextFromId \<noteq> [] then stoneTextFromId else materialCode);
          thickness = trim (toStr (jsOr (lookup (js ''ufCrm8_1748001850227'') item) (JStr [])));
          (managerId, managerName, installersIds, installersNames) = peopleOf E item;
          otkDate = otkDateOf item;
          color = pickColorByRules E (JBool reclEver) otkDate stoneTypeId (JStr title)
                    (JStr stoneText) (JStr installComment) (JStr extraComment);
          sortKey = colorToSortKey E (JStr color);
          freeComment = (if truthy (lookup idStr commentsStore)
                         then toStr (lookup idStr commentsStore) else []);
          googleEventId = (let g = trim (toStr (jsOr (lookup (js ''ufCrm8GoogleCalendarEvent'') item)
                                                   (JStr [])))
                           in if g \<noteq> [] then JStr g else JNull);
          done = (if sysDone then True
                  else if reclEver then False else truthy (lookup idStr doneStore))
      in JObj
        [(js ''id'', JStr idStr),
         (js ''title'', JStr title),
         (js ''start'', dateValue),
         (js ''allDay'', JBool (eventAllDayFromStart dateValue)),
         (js ''backgroundColor'', JStr color),
         (js ''borderColor'', JStr color),
         (js ''extendedProps'', JObj
           [(js ''color'', JStr color),
            (js ''sortKey'', JNum sortKey),
            (js ''done'', JBool done),
            (js ''isDone'', JBool sysDone),
            (js ''stageId'', JStr stageId),
            (js ''transferToShop'', transferToShop),
            (js ''otkDate'', otkDate),
            (js ''plannedInstall'', plannedInstall),
            (js ''assignedInstall'', jsOr assignedInstall JNull),
            (js ''sysAssignedInstall'', jsOr sysAssignedInstall JNull),
            (js ''assignedAny'', jsOr assignedAny JNull),
            (js ''installDone'', installDone),
            (js ''orderNumber'', JStr orderNumber),
            (js ''customerName'', JStr customerName),
            (js ''phone'', phone),
            (js ''address'', cleanAddress),
            (js ''rawAddress'', jsOr (lookup (js ''ufCrm8_1731616801'') item) JNull),
            (js ''lat'', lat),
            (js ''lng'', lng),
            (js ''installComment'', JStr installComment),
            (js ''extraComment'', JStr extraComment),
            (js ''stoneTypeId'', stoneTypeId),
            (js ''stoneText'', JStr stoneText),
            (js ''materialCode'', JStr materialCode),
            (js ''stoneCode'', JStr stoneText),
            (js ''thickness'', JStr thickness),
            (js ''managerId'', managerId),
            (js ''managerName'', managerName),
            (js ''installersIds'', installersIds),
            (js ''installersNames'', installersNames),
            (js ''googleEventId'', googleEventId),
            (js ''freeComment'', JStr freeComment),
            (js ''hideMarker'', JBool hideMarker)])])"



section \<open>The snapshot and the state of the server\<close>

text \<open>
  \<open>eventsSnapshot\<close> and its payload. The payload is the object served to viewers; its
  \<open>events\<close> are an array when the server built them, and whatever the snapshot file held
  after a warm start.
\<close>

record payload =
  p_version :: jsval
  meta :: jsval
  events :: jsval

record snapshot =
  version :: int
  builtAt :: int
  key :: jsval
  payload :: payload
  digest :: jsval

datatype error = UpstreamError | DiskError | TypeError

text \<open>
  The trace of what the server does, in order: a version sent to every connected viewer
  (\<open>broadcastVersion\<close>), a call of \<open>saveSnapshotToDisk\<close> with the snapshot it writes, a
  completed \<open>saveReclSeenStore\<close>, the pull of the CRM items sent at the start of a pass,
  the end of a pass, the debounce timer set by \<open>scheduleRefresh\<close>, an error printed by
  \<open>console.error\<close>, and the next poller tick set with \<open>setTimeout\<close>.
\<close>

datatype effect =
    Broadcast int
  | SaveSnapshot snapshot
  | SaveReclSeen props
  | PullStarted
  | PassEnded
  | TimerSet jsstring
  | ErrorLogged error
  | PollRescheduled

text \<open>
  The module-level variables. \<open>refreshInFlight\<close> is the promise of the running pass or
  \<open>null\<close>, here whether there is one; \<open>refreshTimer\<close> is the debounce timer, here the
  reason its callback will pass on when it is set.
\<close>

record server =
  dataVersion :: int
  eventsSnapshot :: snapshot
  reclSeenStore :: props
  doneStore :: props
  commentsStore :: props
  manualStore :: "jsval list"
  refreshInFlight :: bool
  refreshPending :: bool
  refreshTimer :: "jsstring option"
  lastTopUpdatedTime :: jsval
  effects :: "effect list"

definition broadcastVersion :: "server \<Rightarrow> server" where
  "broadcastVersion s = s\<lparr>effects := effects s @ [Broadcast (dataVersion s)]\<rparr>"

text \<open>
  \<open>saveSnapshotToDisk()\<close>: the snapshot is serialised when the function is called; a failed
  write is swallowed by every caller.
\<close>

definition saveSnapshotToDisk :: "server \<Rightarrow> server" where
  "saveSnapshotToDisk s = s\<lparr>effects := effects s @ [SaveSnapshot (eventsSnapshot s)]\<rparr>"

section \<open>The digest of a payload\<close>

text \<open>
  \<open>snapshotDigest(payload)\<close>, on the array of events it is called with. Reading
  \<open>e.extendedProps\<close> of an element that is \<open>null\<close> throws a \<open>TypeError\<close>. The text fed to
  the hash is \<open>digestInput\<close>.
\<close>

definition boolStr :: "jsval \<Rightarrow> jsstring" where
  "boolStr v = (if truthy v then js ''true'' else js ''false'')"

definition digestEvent :: "jsval \<Rightarrow> error + jsstring" where
  "digestEvent e =
     (if e = JNull \<or> e = JUndef then Inl TypeError
      else (let p = jsOr (getProp (js ''extendedProps'') e) (JObj []) in
        Inr (js ''|'' @ toStr (getProp (js ''id'') e)
           @ js ''|'' @ toStr (jsOr (getProp (js ''start'') e) (JStr []))
           @ js ''|'' @ toStr (jsOr (getProp (js ''backgroundColor'') e) (JStr []))
           @ js ''|'' @ boolStr (getProp (js ''done'') p)
           @ js ''|'' @ boolStr (getProp (js ''isDone'') p)
           @ js ''|'' @ boolStr (getProp (js ''hideMarker'') p)
           @ js ''|'' @ toStr (jsOr (getProp (js ''otkDate'') p) (JStr []))
           @ js ''|'' @ toStr (jsOr (getProp (js ''stageId'') p) (JStr [])))))"

fun digestEvents :: "jsval list \<Rightarrow> error + jsstring" where
  "digestEvents [] = Inr []"
| "digestEvents (e # es) =
     (case digestEvent e of
        Inl err \<Rightarrow> Inl err
      | Inr t \<Rightarrow> (case digestEvents es of Inl err \<Rightarrow> Inl err | Inr ts \<Rightarrow> Inr (t @ ts)))"

definition digestInput :: "jsval list \<Rightarrow> error + jsstring" where
  "digestInput evs =
     (case digestEvents evs of
        Inl err \<Rightarrow> Inl err
      | Inr ts \<Rightarrow> Inr (showNat (length evs) @ ts))"

definition snapshotDigest :: "env \<Rightarrow> jsval list \<Rightarrow> error + jsstring" where
  "snapshotDigest E evs =
     (case digestInput evs of Inl err \<Rightarrow> Inl err | Inr t \<Rightarrow> Inr (sha1hex E t))"

text \<open>The own enumerable properties copied by an object spread \<open>{...v}\<close>.\<close>

definition spreadProps :: "jsval \<Rightarrow> props" where
  "spreadProps v =
     (case v of
        JObj ps \<Rightarrow> ps
      | JArr xs \<Rightarrow> zip (map showNat [0..<length xs]) xs
      | JStr cs \<Rightarrow> zip (map showNat [0..<length cs]) (map (\<lambda>c. JStr [c]) cs)
      | _ \<Rightarrow> [])"

section \<open>The refresh coordinator\<close>










section \<open>Patching the snapshot\<close>

text \<open>\<open>evs.findIndex(f)\<close>, with \<open>None\<close> for \<open>-1\<close>.\<close>

fun findIndex :: "('a \<Rightarrow> bool) \<Rightarrow> 'a list \<Rightarrow> nat option" where
  "findIndex f [] = None"
| "findIndex f (x # xs) =
     (if f x then Some 0 else map_option Suc (findIndex f xs))"

text \<open>
  \<open>patchSnapshotAssignedDate(idStr, value)\<close>, with the three clock readings it takes. The
  result is the value returned and the state left behind. An exception inside the function
  is caught and makes it return \<open>false\<close>: reading \<open>extendedProps\<close> of a \<open>null\<close> element
  throws before anything is written, and \<open>snapshotDigest\<close> throws on a \<open>null\<close> element
  after the event and the versions have been written. An element found that is not a
  plain object, or whose \<open>extendedProps\<close> is neither a plain object nor falsy, is outside
  the model (\<open>None\<close>): the function would write named properties onto an array or a
  primitive value. No event built by the server is of that kind. \<open>hasId idStr\<close> is the
  test \<open>String(e?.id) === String(idStr)\<close> given to \<open>findIndex\<close>, and \<open>extendedPropsOf\<close>
  is \<open>ev.extendedProps || {}\<close>.
\<close>

definition hasId :: "jsval \<Rightarrow> jsval \<Rightarrow> bool" where
  "hasId idStr e = (toStr (getProp (js ''id'') e) = toStr idStr)"

definition extendedPropsOf :: "props \<Rightarrow> props option" where
  "extendedPropsOf ev =
     (if truthy (lookup (js ''extendedProps'') ev)
      then (case lookup (js ''extendedProps'') ev of JObj q \<Rightarrow> Some q | _ \<Rightarrow> None)
      else Some [])"

definition patchSnapshotAssignedDate ::
  "env \<Rightarrow> jsval \<Rightarrow> jsval \<Rightarrow> int \<Rightarrow> int \<Rightarrow> jsstring \<Rightarrow> server \<Rightarrow> (bool \<times> server) option" where
  "patchSnapshotAssignedDate E idStr value tVer tBlt isoPatched s =
     (case events (payload (eventsSnapshot s)) of
        JArr evs \<Rightarrow>
         (case findIndex (hasId idStr) evs of
            None \<Rightarrow> Some (False, s)
          | Some idx \<Rightarrow>
             (case evs ! idx of
                JNull \<Rightarrow> Some (False, s)
              | JUndef \<Rightarrow> Some (False, s)
              | JObj ev \<Rightarrow>
                 (case extendedPropsOf ev of
                    None \<Rightarrow> None
                  | Some p \<Rightarrow>
                     if lookup (js ''isDone'') p = JBool True
                        \<or> lookup (js ''hideMarker'') p = JBool True
                     then Some (False, s)
                     else
                      (let ev1 = setProp (js ''start'') value ev;
                           ev2 = setProp (js ''allDay'') (JBool (eventAllDayFromStart value)) ev1;
                           p1 = setProp (js ''assignedInstall'') value p;
                           p2 = setProp (js ''assignedAny'') value p1;
                           ev3 = setProp (js ''extendedProps'') (JObj p2) ev2;
                           evs' = evs[idx := JObj ev3];
                           old = eventsSnapshot s;
                           m1 = spreadProps (jsOr (meta (payload old)) (JObj []));
                           m2 = setProp (js ''reason'') (JStr (js ''assigned_patch'')) m1;
                           m3 = setProp (js ''patchedAt'') (JStr isoPatched) m2;
                           s1 = s\<lparr>dataVersion := tVer,
                                  eventsSnapshot := old\<lparr>version := tVer, builtAt := tBlt,
                                    payload := \<lparr>p_version = JNum tVer, meta = JObj m3,
                                                events = JArr evs'\<rparr>\<rparr>\<rparr>
                       in case snapshotDigest E evs' of
                            Inl err \<Rightarrow> Some (False, s1)
                          | Inr d \<Rightarrow>
                             (let s2 = s1\<lparr>eventsSnapshot := (eventsSnapshot s1)\<lparr>digest := JStr d\<rparr>\<rparr>
                              in Some (True, broadcastVersion (saveSnapshotToDisk s2)))))
              | _ \<Rightarrow> None))
      | _ \<Rightarrow> Some (False, s))"

section \<open>The reconciliation poller\<close>




section \<open>Notions of the specification\<close>




text \<open>
  A sample environment for concrete runs: lower-casing of the Latin and Russian capital
  letters, a stand-in for the hash that prefixes its input with the letter h, and empty
  presentation attributes.
\<close>

definition lowerUnit :: "nat \<Rightarrow> nat" where
  "lowerUnit c =
     (if 65 \<le> c \<and> c \<le> 90 then c + 32
      else if 1040 \<le> c \<and> c \<le> 1071 then c + 32
      else if c = 1025 then 1105 else c)"

definition sampleEnv :: env where
  "sampleEnv =
     \<lparr>toLowerCase = map lowerUnit,
      sha1hex = (\<lambda>t. 104 # t),
      placeOf = (\<lambda>item. (JStr [], JNull, JNull)),
      peopleOf = (\<lambda>item. (JNull, JStr [], JArr [], JArr []))\<rparr>"












definition doneOf :: "jsval \<Rightarrow> jsval" where
  "doneOf e = getProp (js ''done'') (getProp (js ''extendedProps'') e)"






text \<open>The colour of an event.\<close>

definition colorOf :: "jsval \<Rightarrow> jsval" where
  "colorOf e = getProp (js ''backgroundColor'') e"

text \<open>
  The state of the module when the process starts at clock reading \<open>t\<close>, with empty
  stores, and the state after the start-up trigger has fired and the first pass runs.
\<close>

definition initialServer :: "int \<Rightarrow> server" where
  "initialServer t =
     \<lparr>dataVersion = t,
      eventsSnapshot =
        \<lparr>version = t, builtAt = 0, key = JNull,
         payload = \<lparr>p_version = JNum t, meta = JObj [(js ''warm'', JBool False)],
                    events = JArr []\<rparr>,
         digest = JNull\<rparr>,
      reclSeenStore = [], doneStore = [], commentsStore = [], manualStore = [],
      refreshInFlight = False, refreshPending = False, refreshTimer = None,
      lastTopUpdatedTime = JNull, effects = []\<rparr>"





text \<open>
  A sample event as the snapshot file holds it, open or closed, and a state serving an
  open event 7 and a closed event 8.
\<close>

definition sampleProps :: "bool \<Rightarrow> props" where
  "sampleProps closed =
     [(js ''done'', JBool closed),
      (js ''isDone'', JBool closed),
      (js ''stageId'', JStr (js ''DT141_14:UC_44PKAP'')),
      (js ''otkDate'', JStr (js ''2024-01-10'')),
      (js ''assignedInstall'', JStr (js ''2024-02-05'')),
      (js ''assignedAny'', JStr (js ''2024-02-05'')),
      (js ''hideMarker'', JBool closed)]"

definition sampleFields :: "jsstring \<Rightarrow> bool \<Rightarrow> props" where
  "sampleFields i closed =
     [(js ''id'', JStr i),
      (js ''title'', JStr i),
      (js ''start'', JStr (js ''2024-02-05'')),
      (js ''allDay'', JBool True),
      (js ''backgroundColor'', JStr COLOR_BLUE),
      (js ''borderColor'', JStr COLOR_BLUE),
      (js ''extendedProps'', JObj (sampleProps closed))]"

definition sampleEvent :: "jsstring \<Rightarrow> bool \<Rightarrow> jsval" where
  "sampleEvent i closed = JObj (sampleFields i closed)"

definition servingServer :: server where
  "servingServer =
     (initialServer 1000)
       \<lparr>dataVersion := 2000,
        eventsSnapshot :=
          \<lparr>version = 2000, builtAt = 2000, key = JNull,
           payload = \<lparr>p_version = JNum 2000, meta = JObj [(js ''reason'', JStr (js ''startup''))],
                      events = JArr [sampleEvent (js ''7'') False, sampleEvent (js ''8'') True]\<rparr>,
           digest = JStr (js ''0f'')\<rparr>\<rparr>"


















section \<open>Basic facts\<close>

lemma js_eq [simp]: "js a = js b \<longleftrightarrow> a = b"
  by (simp add: js_def inj_map_eq_map[OF inj_of_char])

lemma js_Nil [simp]: "js [] = []" "js s = [] \<longleftrightarrow> s = []" "[] = js s \<longleftrightarrow> s = []"
  by (auto simp: js_def)






section \<open>The colour of an event\<close>



section \<open>The start date of an event\<close>





lemma buildEvent_id [simp]:
  "getProp (js ''id'') (buildEvent E dS cS item r d) = JStr (itemIdStr item)"
  by (simp add: buildEvent_def Let_def split_def)

lemma buildEvent_start [simp]:
  "getProp (js ''start'') (buildEvent E dS cS item r d) = d"
  by (simp add: buildEvent_def Let_def split_def)

lemma buildEvent_done [simp]:
  "doneOf (buildEvent E dS cS item r d) =
     JBool (itemStageId item = STAGE_SUCCESS \<or> (\<not> r \<and> truthy (lookup (itemIdStr item) dS)))"
  by (simp add: buildEvent_def doneOf_def Let_def split_def)






section \<open>Completed items\<close>





section \<open>The store of reclamation marks\<close>

lemma lookup_setProp: "lookup k (setProp k' v ps) = (if k = k' then v else lookup k ps)"
  by (induction ps) auto

lemma buildEvent_red [simp]:
  "colorOf (buildEvent E dS cS item True d) = JStr COLOR_RED"
  by (simp add: buildEvent_def colorOf_def Let_def split_def pickColorByRules_def)
















section \<open>Patching an assigned date\<close>

lemma findIndex_None: "findIndex f xs = None \<longleftrightarrow> (\<forall>x \<in> set xs. \<not> f x)"
  by (induction xs) auto

lemma findIndex_Some:
  "findIndex f xs = Some i \<Longrightarrow> i < length xs \<and> f (xs ! i) \<and> (\<forall>j < i. \<not> f (xs ! j))"
proof (induction xs arbitrary: i)
  case Nil
  then show ?case by simp
next
  case (Cons x xs)
  show ?case
  proof (cases "f x")
    case True
    with Cons.prems show ?thesis by simp
  next
    case False
    with Cons.prems obtain i' where i': "findIndex f xs = Some i'" "i = Suc i'"
      by auto
    from Cons.IH[OF i'(1)] False i'(2) show ?thesis
      by (auto simp: less_Suc_eq_0_disj)
  qed
qed

text \<open>
  Claim C10. When the event list of the live snapshot is not an array, or no element of it
  has the id asked for, the patch returns \<open>false\<close> and the state of the server is the
  one before the call: the snapshot, its events, version and digest and the global data
  version are unchanged, nothing is broadcast and nothing is written to disk.
\<close>

theorem patch_unknown_id:
  assumes "\<forall>evs. events (payload (eventsSnapshot s)) = JArr evs \<longrightarrow>
             (\<forall>e \<in> set evs. \<not> hasId idStr e)"
  shows "patchSnapshotAssignedDate E idStr v tVer tBlt stamp s = Some (False, s)"
proof (cases "events (payload (eventsSnapshot s))")
  case (JArr evs)
  with assms have "findIndex (hasId idStr) evs = None"
    by (simp add: findIndex_None)
  with JArr show ?thesis by (simp add: patchSnapshotAssignedDate_def)
qed (simp_all add: patchSnapshotAssignedDate_def)

theorem patch_unknown_id_witness:
  "events (payload (eventsSnapshot servingServer))
     = JArr [sampleEvent (js ''7'') False, sampleEvent (js ''8'') True]
   \<and> \<not> hasId (JStr (js ''99'')) (sampleEvent (js ''7'') False)
   \<and> \<not> hasId (JStr (js ''99'')) (sampleEvent (js ''8'') True)
   \<and> patchSnapshotAssignedDate sampleEnv (JStr (js ''99'')) (JStr (js ''2024-03-01'')) 3000 3000
        (js ''2024-01-05T10:00:00.000Z'') servingServer = Some (False, servingServer)
   \<and> patchSnapshotAssignedDate sampleEnv (JStr (js ''7'')) (JStr (js ''2024-03-01'')) 3000 3000
        (js ''2024-01-05T10:00:00.000Z'')
        (servingServer\<lparr>eventsSnapshot := (eventsSnapshot servingServer)
            \<lparr>payload := (payload (eventsSnapshot servingServer))\<lparr>events := JNull\<rparr>\<rparr>\<rparr>)
      = Some (False, servingServer\<lparr>eventsSnapshot := (eventsSnapshot servingServer)
            \<lparr>payload := (payload (eventsSnapshot servingServer))\<lparr>events := JNull\<rparr>\<rparr>\<rparr>)"
proof -
  have e: "events (payload (eventsSnapshot servingServer))
     = JArr [sampleEvent (js ''7'') False, sampleEvent (js ''8'') True]"
    by (simp add: servingServer_def initialServer_def)
  have n: "\<not> hasId (JStr (js ''99'')) (sampleEvent (js ''7'') False)"
    "\<not> hasId (JStr (js ''99'')) (sampleEvent (js ''8'') True)"
    by (simp_all add: sampleEvent_def sampleFields_def hasId_def)
  have h: "\<forall>evs. events (payload (eventsSnapshot servingServer)) = JArr evs \<longrightarrow>
             (\<forall>e \<in> set evs. \<not> hasId (JStr (js ''99'')) e)"
    using e n by simp
  have h': "\<forall>evs. events (payload (eventsSnapshot (servingServer\<lparr>eventsSnapshot :=
               (eventsSnapshot servingServer)
                 \<lparr>payload := (payload (eventsSnapshot servingServer))\<lparr>events := JNull\<rparr>\<rparr>\<rparr>))) = JArr evs
             \<longrightarrow> (\<forall>e \<in> set evs. \<not> hasId (JStr (js ''7'')) e)"
    by simp
  from patch_unknown_id[OF h] patch_unknown_id[OF h'] e n show ?thesis by blast
qed



lemma lookup_setProp_same [simp]: "lookup k (setProp k v ps) = v"
  by (simp add: lookup_setProp)

lemma lookup_setProp_other [simp]: "k \<noteq> k' \<Longrightarrow> lookup k (setProp k' v ps) = lookup k ps"
  by (simp add: lookup_setProp)






section \<open>A refresh pass\<close>







lemma buildEvent_object [simp]:
  "buildEvent E dS cS item r d \<noteq> JNull" "buildEvent E dS cS item r d \<noteq> JUndef"
  by (simp_all add: buildEvent_def Let_def split_def)

lemma manualToFcEvent_object [simp]:
  "manualToFcEvent E cS dS now m \<noteq> JNull" "manualToFcEvent E cS dS now m \<noteq> JUndef"
  by (simp_all add: manualToFcEvent_def Let_def)













section \<open>Coalescing of triggers\<close>














section \<open>Ticks of the poller\<close>









end
